theory Spec2Isabelle
  imports Main
begin

section \<open>Text primitives of the Python runtime\<close>

text \<open>
  A Python \<open>str\<close> is a sequence of code points.  The reply text handled by
  \<open>llm_client.py\<close> is modelled as a \<open>string\<close>, so the model covers every reply
  whose code points lie below 256; the strings decoded from JSON escapes may hold any
  code point and are lists of naturals (see the decoder below).
\<close>

abbreviation DQ :: char where "DQ \<equiv> CHR 0x22"
abbreviation BS :: char where "BS \<equiv> CHR 0x5C"
abbreviation NL :: char where "NL \<equiv> CHR 0x0A"
abbreviation TAB :: char where "TAB \<equiv> CHR 0x09"
abbreviation CR :: char where "CR \<equiv> CHR 0x0D"
abbreviation BQ :: char where "BQ \<equiv> CHR 0x60"

text \<open>\<open>str.isspace\<close> on one character (also the class \<open>\s\<close> of \<open>re\<close> on \<open>str\<close>
  patterns), for code points below 256.\<close>

definition isspace :: "char \<Rightarrow> bool" where
  "isspace c = (let n = (of_char c :: nat) in
     (9 \<le> n \<and> n \<le> 13) \<or> (28 \<le> n \<and> n \<le> 32) \<or> n = 133 \<or> n = 160)"

text \<open>\<open>s.strip()\<close>: leading and trailing whitespace removed.\<close>

definition lstrip :: "string \<Rightarrow> string" where
  "lstrip s = dropWhile isspace s"

definition rstrip :: "string \<Rightarrow> string" where
  "rstrip s = rev (dropWhile isspace (rev s))"

definition strip :: "string \<Rightarrow> string" where
  "strip s = rstrip (lstrip s)"

text \<open>\<open>s.startswith(p)\<close>.\<close>

fun startswith :: "string \<Rightarrow> string \<Rightarrow> bool" where
  "startswith s [] = True"
| "startswith [] (p # ps) = False"
| "startswith (c # cs) (p # ps) = (c = p \<and> startswith cs ps)"

text \<open>\<open>s.split\<close> at newlines: one piece more than there are newlines, never an empty list.\<close>

fun split_nl :: "string \<Rightarrow> string list" where
  "split_nl [] = [[]]"
| "split_nl (c # cs) =
     (if c = NL then [] # split_nl cs
      else (case split_nl cs of [] \<Rightarrow> [[c]] | l # ls \<Rightarrow> (c # l) # ls))"

text \<open>\<open>join\<close> with a newline between the lines.\<close>

fun join_nl :: "string list \<Rightarrow> string" where
  "join_nl [] = []"
| "join_nl [l] = l"
| "join_nl (l # ls) = l @ NL # join_nl ls"

text \<open>\<open>s.replace(old, new)\<close> for a two-character \<open>old\<close> and a one-character
  \<open>new\<close>: occurrences are replaced from the left, without overlap.\<close>

fun replace2 :: "char \<Rightarrow> char \<Rightarrow> char \<Rightarrow> string \<Rightarrow> string" where
  "replace2 a b n (c # d # cs) =
     (if c = a \<and> d = b then n # replace2 a b n cs else c # replace2 a b n (d # cs))"
| "replace2 a b n cs = cs"

section \<open>Fence stripping (\<open>LLMClient.chat\<close>, lines 148 to 158)\<close>

definition fence :: string where
  "fence = [BQ, BQ, BQ]"

text \<open>The slices \<open>lines[1:-1]\<close> and \<open>lines[1:]\<close>; \<open>lines[-1]\<close> is \<open>last lines\<close>, and
  \<open>split\<close> never returns an empty list.\<close>

definition strip_fence :: "string \<Rightarrow> string" where
  "strip_fence content =
     (if startswith content fence then
        (let lines = split_nl content in
         if startswith (strip (last lines)) fence
         then join_nl (butlast (tl lines))
         else join_nl (tl lines))
      else content)"

section \<open>Sanitation (\<open>LLMClient._clean_json_string\<close>)\<close>

text \<open>The class \<open>[\x00-\x08\x0b\x0c\x0e-\x1f\x7f]\<close> that \<open>re.sub\<close> deletes.\<close>

definition is_ctrl :: "char \<Rightarrow> bool" where
  "is_ctrl c = (let n = (of_char c :: nat) in
     n \<le> 8 \<or> n = 11 \<or> n = 12 \<or> (14 \<le> n \<and> n \<le> 31) \<or> n = 127)"

definition remove_ctrl :: "string \<Rightarrow> string" where
  "remove_ctrl s = filter (\<lambda>c. \<not> is_ctrl c) s"

text \<open>The character loop, with its two flags \<open>in_string\<close> and \<open>escape_next\<close> as
  arguments; the branches are in the order of the source.\<close>

fun escape_scan :: "bool \<Rightarrow> bool \<Rightarrow> string \<Rightarrow> string" where
  "escape_scan in_string escape_next [] = []"
| "escape_scan in_string escape_next (c # cs) =
     (if escape_next then c # escape_scan in_string False cs
      else if c = BS then c # escape_scan in_string True cs
      else if c = DQ then c # escape_scan (\<not> in_string) False cs
      else if in_string \<and> c = NL then BS # CHR ''n'' # escape_scan in_string False cs
      else if in_string \<and> c = TAB then BS # CHR ''t'' # escape_scan in_string False cs
      else c # escape_scan in_string False cs)"

definition clean_json_string :: "string \<Rightarrow> string" where
  "clean_json_string s = escape_scan False False (remove_ctrl s)"

section \<open>The JSON decoder (\<open>json.loads\<close>)\<close>

text \<open>
  \<open>json.loads\<close> belongs to the Python library; it is modelled after CPython's
  \<open>json.decoder\<close> and \<open>json.scanner\<close>: \<open>scan_once\<close> dispatches on the next character,
  \<open>JSONObject\<close> and \<open>JSONArray\<close> loop over members and elements, \<open>scanstring\<close> decodes
  a string literal.  A number is kept as its lexeme (no claim depends on its numeric
  value), and an object as its list of pairs in document order.  The recursion depth of
  the interpreter is not bounded in the model.
\<close>

datatype json =
    JNull
  | JBool bool
  | JNumber string
  | JString "nat list"
  | JArray "json list"
  | JObject "(nat list \<times> json) list"

text \<open>The exceptions that matter to \<open>chat\<close>: \<open>json.JSONDecodeError\<close> with its message
  (without the position suffix), and any other \<open>Exception\<close> with its \<open>str\<close>.\<close>

datatype exn = JSONDecodeError string | OtherError string

text \<open>What a decoding function returns: the decoded value and the rest of the input,
  a \<open>JSONDecodeError\<close>, or the exhaustion of the recursion budget of the model.\<close>

datatype decode_error = Decode string | Fuel

type_synonym 'a decoded = "decode_error + ('a \<times> string)"

definition is_ws :: "char \<Rightarrow> bool" where
  "is_ws c = (c = CHR '' '' \<or> c = TAB \<or> c = NL \<or> c = CR)"

definition skip_ws :: "string \<Rightarrow> string" where
  "skip_ws s = dropWhile is_ws s"

definition is_digit :: "char \<Rightarrow> bool" where
  "is_digit c = (let n = (of_char c :: nat) in 48 \<le> n \<and> n \<le> 57)"

definition hexval :: "char \<Rightarrow> nat option" where
  "hexval c = (let n = (of_char c :: nat) in
     if 48 \<le> n \<and> n \<le> 57 then Some (n - 48)
     else if 97 \<le> n \<and> n \<le> 102 then Some (n - 87)
     else if 65 \<le> n \<and> n \<le> 70 then Some (n - 55)
     else None)"

fun hex4 :: "string \<Rightarrow> (nat \<times> string) option" where
  "hex4 (a # b # c # d # r) =
     (case (hexval a, hexval b, hexval c, hexval d) of
        (Some x, Some y, Some z, Some w) \<Rightarrow> Some (((x * 16 + y) * 16 + z) * 16 + w, r)
      | _ \<Rightarrow> None)"
| "hex4 s = None"

text \<open>A \<open>\uXXXX\<close> escape, read after the \<open>u\<close>: a high surrogate followed by an escaped
  low surrogate is joined to one code point.\<close>

definition uXXXX :: "string \<Rightarrow> (nat \<times> string) option" where
  "uXXXX s =
     (case hex4 s of
        None \<Rightarrow> None
      | Some (u, r) \<Rightarrow>
          if 0xD800 \<le> u \<and> u \<le> 0xDBFF \<and> startswith r [BS, CHR ''u''] then
            (case hex4 (drop 2 r) of
               None \<Rightarrow> None
             | Some (u2, r2) \<Rightarrow>
                 if 0xDC00 \<le> u2 \<and> u2 \<le> 0xDFFF
                 then Some (0x10000 + ((u - 0xD800) * 1024 + (u2 - 0xDC00)), r2)
                 else Some (u, r))
          else Some (u, r))"

text \<open>The table \<open>BACKSLASH\<close> of one-character escapes.\<close>

definition backslash :: "char \<Rightarrow> nat option" where
  "backslash e =
     (if e = DQ then Some 0x22 else if e = BS then Some 0x5C
      else if e = CHR ''/'' then Some 0x2F else if e = CHR ''b'' then Some 8
      else if e = CHR ''f'' then Some 12 else if e = CHR ''n'' then Some 10
      else if e = CHR ''r'' then Some 13 else if e = CHR ''t'' then Some 9
      else None)"

definition prepend :: "nat list \<Rightarrow> (nat list) decoded \<Rightarrow> (nat list) decoded" where
  "prepend ns res = (case res of Inl e \<Rightarrow> Inl e | Inr (cs, r) \<Rightarrow> Inr (ns @ cs, r))"

lemma hex4_length: "hex4 s = Some (u, r) \<Longrightarrow> length r < length s"
  by (induction s rule: hex4.induct) (auto split: option.splits)

lemma uXXXX_length: "uXXXX s = Some (u, r) \<Longrightarrow> length r < length s"
  by (auto simp: uXXXX_def split: option.splits if_splits dest!: hex4_length)

text \<open>
  \<open>scanstring\<close>, entered after the opening quote.  The argument \<open>raw\<close> says what a
  character that is neither a quote nor a backslash contributes to the decoded string,
  \<open>None\<close> meaning that it is rejected.  \<open>json.loads\<close> decodes with \<open>strict_raw\<close>
  (\<open>strict=True\<close>): every character below \<open>0x20\<close> is rejected, every other stands for
  itself.
\<close>

function scanstring :: "(char \<Rightarrow> nat list option) \<Rightarrow> string \<Rightarrow> (nat list) decoded" where
  "scanstring raw [] = Inl (Decode ''Unterminated string starting at'')"
| "scanstring raw (c # cs) =
     (if c = DQ then Inr ([], cs)
      else if c = BS then
        (case cs of
           [] \<Rightarrow> Inl (Decode ''Unterminated string starting at'')
         | e # r \<Rightarrow>
             if e = CHR ''u'' then
               (case uXXXX r of
                  None \<Rightarrow> Inl (Decode ''Invalid uXXXX escape'')
                | Some (u, r') \<Rightarrow> prepend [u] (scanstring raw r'))
             else
               (case backslash e of
                  None \<Rightarrow> Inl (Decode ''Invalid escape'')
                | Some n \<Rightarrow> prepend [n] (scanstring raw r)))
      else
        (case raw c of
           None \<Rightarrow> Inl (Decode ''Invalid control character at'')
         | Some ns \<Rightarrow> prepend ns (scanstring raw cs)))"
  by pat_completeness auto
termination
  by (relation "measure (\<lambda>(raw, s). length s)") (auto dest: uXXXX_length)

definition strict_raw :: "char \<Rightarrow> nat list option" where
  "strict_raw c = (if (of_char c :: nat) < 32 then None else Some [of_char c])"

text \<open>The number pattern
  \<open>(-?(?:0|[1-9][0-9]*))(\.[0-9]+)?([eE][-+]?[0-9]+)?\<close>, matched at the start of the
  input: the lexeme and the rest.\<close>

definition int_part :: "string \<Rightarrow> (string \<times> string) option" where
  "int_part s =
     (case s of
        [] \<Rightarrow> None
      | c # cs \<Rightarrow>
          if c = CHR ''0'' then Some ([c], cs)
          else if is_digit c then Some (c # takeWhile is_digit cs, dropWhile is_digit cs)
          else None)"

definition frac_part :: "string \<Rightarrow> string \<times> string" where
  "frac_part s =
     (case s of
        c # d # cs \<Rightarrow>
          if c = CHR ''.'' \<and> is_digit d
          then (c # d # takeWhile is_digit cs, dropWhile is_digit cs)
          else ([], s)
      | _ \<Rightarrow> ([], s))"

definition exp_part :: "string \<Rightarrow> string \<times> string" where
  "exp_part s =
     (case s of
        [] \<Rightarrow> ([], s)
      | c # cs \<Rightarrow>
          if c = CHR ''e'' \<or> c = CHR ''E'' then
            (let (sg, ds) = (case cs of
                               [] \<Rightarrow> ([], cs)
                             | x # xs \<Rightarrow> if x = CHR ''-'' \<or> x = CHR ''+'' then ([x], xs)
                                         else ([], cs))
             in if takeWhile is_digit ds = [] then ([], s)
                else (c # sg @ takeWhile is_digit ds, dropWhile is_digit ds))
          else ([], s))"

definition match_number :: "string \<Rightarrow> (string \<times> string) option" where
  "match_number s =
     (let (sign, s1) = (case s of
                          [] \<Rightarrow> ([], s)
                        | c # cs \<Rightarrow> if c = CHR ''-'' then ([c], cs) else ([], s))
      in case int_part s1 of
           None \<Rightarrow> None
         | Some (i, s2) \<Rightarrow>
             (let (f, s3) = frac_part s2; (e, s4) = exp_part s3
              in Some (sign @ i @ f @ e, s4)))"

text \<open>The constants, tried in the order of \<open>scan_once\<close>: \<open>null\<close>, \<open>true\<close>, \<open>false\<close>
  before the number, \<open>NaN\<close>, \<open>Infinity\<close> and \<open>-Infinity\<close> after it.\<close>

definition scan_literal :: "string \<Rightarrow> (json \<times> string) option" where
  "scan_literal s =
     (if startswith s ''null'' then Some (JNull, drop 4 s)
      else if startswith s ''true'' then Some (JBool True, drop 4 s)
      else if startswith s ''false'' then Some (JBool False, drop 5 s)
      else (case match_number s of
              Some (lexeme, r) \<Rightarrow> Some (JNumber lexeme, r)
            | None \<Rightarrow>
                if startswith s ''NaN'' then Some (JNumber ''NaN'', drop 3 s)
                else if startswith s ''Infinity'' then Some (JNumber ''Infinity'', drop 8 s)
                else if startswith s ''-Infinity'' then Some (JNumber ''-Infinity'', drop 9 s)
                else None))"

text \<open>
  \<open>scan_once\<close>, \<open>JSONArray\<close> (entered at the first element) and \<open>JSONObject\<close> (entered
  after the opening quote of a key).  The first argument after \<open>raw\<close> bounds the number of
  nested calls; \<open>json_loads\<close> below passes a bound that is never reached.
\<close>

fun scan_once :: "(char \<Rightarrow> nat list option) \<Rightarrow> nat \<Rightarrow> string \<Rightarrow> json decoded"
  and json_array :: "(char \<Rightarrow> nat list option) \<Rightarrow> nat \<Rightarrow> string \<Rightarrow> (json list) decoded"
  and json_object :: "(char \<Rightarrow> nat list option) \<Rightarrow> nat \<Rightarrow> string
                        \<Rightarrow> ((nat list \<times> json) list) decoded"
  where
  "scan_once raw 0 s = Inl Fuel"
| "scan_once raw (Suc n) s =
     (case s of
        [] \<Rightarrow> Inl (Decode ''Expecting value'')
      | c # cs \<Rightarrow>
          if c = DQ then
            (case scanstring raw cs of
               Inl e \<Rightarrow> Inl e
             | Inr (str, r) \<Rightarrow> Inr (JString str, r))
          else if c = CHR ''{'' then
            (case skip_ws cs of
               [] \<Rightarrow> Inl (Decode ''Expecting property name enclosed in double quotes'')
             | d # ds \<Rightarrow>
                 if d = CHR ''}'' then Inr (JObject [], ds)
                 else if d = DQ then
                   (case json_object raw n ds of
                      Inl e \<Rightarrow> Inl e
                    | Inr (pairs, r) \<Rightarrow> Inr (JObject pairs, r))
                 else Inl (Decode ''Expecting property name enclosed in double quotes''))
          else if c = CHR ''['' then
            (case skip_ws cs of
               [] \<Rightarrow> Inl (Decode ''Expecting value'')
             | d # ds \<Rightarrow>
                 if d = CHR '']'' then Inr (JArray [], ds)
                 else
                   (case json_array raw n (d # ds) of
                      Inl e \<Rightarrow> Inl e
                    | Inr (vals, r) \<Rightarrow> Inr (JArray vals, r)))
          else
            (case scan_literal s of
               None \<Rightarrow> Inl (Decode ''Expecting value'')
             | Some (v, r) \<Rightarrow> Inr (v, r)))"
| "json_array raw 0 s = Inl Fuel"
| "json_array raw (Suc n) s =
     (case scan_once raw n s of
        Inl e \<Rightarrow> Inl e
      | Inr (v, r) \<Rightarrow>
          (case skip_ws r of
             [] \<Rightarrow> Inl (Decode ''Expecting , delimiter'')
           | d # ds \<Rightarrow>
               if d = CHR '']'' then Inr ([v], ds)
               else if d = CHR '','' then
                 (case json_array raw n (skip_ws ds) of
                    Inl e \<Rightarrow> Inl e
                  | Inr (vals, r') \<Rightarrow> Inr (v # vals, r'))
               else Inl (Decode ''Expecting , delimiter'')))"
| "json_object raw 0 s = Inl Fuel"
| "json_object raw (Suc n) s =
     (case scanstring raw s of
        Inl e \<Rightarrow> Inl e
      | Inr (key, r) \<Rightarrow>
          (case skip_ws r of
             [] \<Rightarrow> Inl (Decode ''Expecting : delimiter'')
           | d # ds \<Rightarrow>
               if d = CHR '':'' then
                 (case scan_once raw n (skip_ws ds) of
                    Inl e \<Rightarrow> Inl e
                  | Inr (v, r1) \<Rightarrow>
                      (case skip_ws r1 of
                         [] \<Rightarrow> Inl (Decode ''Expecting , delimiter'')
                       | x # xs \<Rightarrow>
                           if x = CHR ''}'' then Inr ([(key, v)], xs)
                           else if x = CHR '','' then
                             (case skip_ws xs of
                                [] \<Rightarrow> Inl (Decode ''Expecting property name enclosed in double quotes'')
                              | y # ys \<Rightarrow>
                                  if y = DQ then
                                    (case json_object raw n ys of
                                       Inl e \<Rightarrow> Inl e
                                     | Inr (pairs, r2) \<Rightarrow> Inr ((key, v) # pairs, r2))
                                  else Inl (Decode ''Expecting property name enclosed in double quotes''))
                           else Inl (Decode ''Expecting , delimiter'')))
               else Inl (Decode ''Expecting : delimiter'')))"

text \<open>\<open>JSONDecoder.decode\<close>: whitespace, one value, whitespace, end of input.\<close>

definition json_decode :: "(char \<Rightarrow> nat list option) \<Rightarrow> string \<Rightarrow> decode_error + json" where
  "json_decode raw s =
     (case scan_once raw (2 * length s + 1) (skip_ws s) of
        Inl e \<Rightarrow> Inl e
      | Inr (v, r) \<Rightarrow> if skip_ws r = [] then Inr v else Inl (Decode ''Extra data''))"

definition json_loads :: "string \<Rightarrow> decode_error + json" where
  "json_loads s = json_decode strict_raw s"

section \<open>The fallback patterns (\<open>re.search\<close>)\<close>

text \<open>
  \<open>re.search\<close> is modelled by a backtracking matcher for the operators that the two
  patterns of \<open>chat\<close> use.  \<open>rmatch r s g\<close> lists the ways in which \<open>r\<close> matches a
  prefix of \<open>s\<close>, in the order in which a backtracking engine tries them (a greedy star
  tries one more repetition first), each with the rest of the input and the text of
  group 1 (\<open>g\<close> on entry).
\<close>

datatype regex =
    Eps
  | Chars "char \<Rightarrow> bool"
  | Seq regex regex
  | Star regex
  | Group regex

function rmatch :: "regex \<Rightarrow> string \<Rightarrow> string option \<Rightarrow> (string \<times> string option) list" where
  "rmatch Eps s g = [(s, g)]"
| "rmatch (Chars p) s g = (case s of [] \<Rightarrow> [] | c # cs \<Rightarrow> if p c then [(cs, g)] else [])"
| "rmatch (Seq a b) s g = concat (map (\<lambda>(s', g'). rmatch b s' g') (rmatch a s g))"
| "rmatch (Star a) s g =
     concat (map (\<lambda>(s', g'). if length s' < length s then rmatch (Star a) s' g' else [])
                 (rmatch a s g)) @ [(s, g)]"
| "rmatch (Group a) s g =
     map (\<lambda>(s', g'). (s', Some (take (length s - length s') s))) (rmatch a s g)"
  by pat_completeness auto
termination
  by (relation "measures [\<lambda>(r, s, g). size r, \<lambda>(r, s, g). length s]") auto

text \<open>The equation of the star mentions the star again under a guard; it is applied
  by hand.\<close>

declare rmatch.simps(4) [simp del]

text \<open>\<open>re.search\<close>: the first start position with a match, and there the first match
  in the order of the engine; the result is \<open>group(1)\<close> of the match object.\<close>

fun re_search :: "regex \<Rightarrow> string \<Rightarrow> string option option" where
  "re_search r [] = (case rmatch r [] None of [] \<Rightarrow> None | (rest, g) # ms \<Rightarrow> Some g)"
| "re_search r (c # cs) =
     (case rmatch r (c # cs) None of [] \<Rightarrow> re_search r cs | (rest, g) # ms \<Rightarrow> Some g)"

fun lit :: "string \<Rightarrow> regex" where
  "lit [] = Eps"
| "lit (c # cs) = Seq (Chars (\<lambda>x. x = c)) (lit cs)"

text \<open>The pattern of lines 183 and 187 for a key, with \<open>re.DOTALL\<close>: the key in
  double quotes, \<open>\s*:\s*\<close>, a double quote, group 1, a double quote.  Group 1 is a
  greedy run of characters other than the double quote, then greedily repeated a
  backslash, any character and again such a run.\<close>

definition field_pattern :: "string \<Rightarrow> regex" where
  "field_pattern key =
     Seq (lit ([DQ] @ key @ [DQ]))
    (Seq (Star (Chars isspace))
    (Seq (Chars (\<lambda>x. x = CHR '':''))
    (Seq (Star (Chars isspace))
    (Seq (Chars (\<lambda>x. x = DQ))
    (Seq (Group (Seq (Star (Chars (\<lambda>x. x \<noteq> DQ)))
                     (Star (Seq (Chars (\<lambda>x. x = BS))
                           (Seq (Chars (\<lambda>x. True))
                                (Star (Chars (\<lambda>x. x \<noteq> DQ))))))))
         (Chars (\<lambda>x. x = DQ)))))))"

text \<open>Whether a pattern has a capturing group on every path (the patterns here are
  sequences).\<close>

fun has_group :: "regex \<Rightarrow> bool" where
  "has_group (Group a) = True"
| "has_group (Seq a b) = (has_group a \<or> has_group b)"
| "has_group r = False"

text \<open>The two calls of \<open>replace\<close> on a captured text: backslash and \<open>n\<close> become a
  newline, then backslash and double quote become a double quote.\<close>

definition unescape :: "string \<Rightarrow> string" where
  "unescape s = replace2 BS DQ DQ (replace2 BS (CHR ''n'') NL s)"

text \<open>One fallback extraction: the search, and the two replacements on \<open>group(1)\<close>;
  no match leaves the empty string.  A match whose group 1 is unset would make
  \<open>.replace\<close> raise \<open>AttributeError\<close> inside the handler.\<close>

definition extract_field :: "string \<Rightarrow> string \<Rightarrow> exn + string" where
  "extract_field key raw_content =
     (case re_search (field_pattern key) raw_content of
        None \<Rightarrow> Inr []
      | Some None \<Rightarrow> Inl (OtherError ''NoneType object has no attribute replace'')
      | Some (Some g) \<Rightarrow> Inr (unescape g))"

section \<open>\<open>LLMClient.chat\<close>\<close>

datatype provider = openai | azure | ollama

datatype status = Ok | Error

record token_usage =
  prompt_tokens :: int
  completion_tokens :: int
  total_tokens :: int

text \<open>The dictionary that \<open>chat\<close> returns.  The two text fields hold whatever
  \<open>parsed.get\<close> returns, so any JSON value; a Python \<open>str\<close> is a \<open>JString\<close>.
  \<open>error_message = None\<close> stands for a dictionary without that key.\<close>

record chat_result =
  natural_language_answer :: json
  sql_query :: json
  token_usage :: token_usage
  latency_ms :: int
  provider :: provider
  model :: string
  status :: status
  error_message :: "string option"

text \<open>The fields of \<open>self\<close> that \<open>chat\<close> reads.\<close>

record client =
  cl_provider :: provider
  cl_model :: string

text \<open>The \<open>usage\<close> object of a response; each attribute may be missing or \<open>None\<close>.\<close>

record api_usage =
  u_prompt_tokens :: "int option"
  u_completion_tokens :: "int option"
  u_total_tokens :: "int option"

text \<open>
  What the backend call (lines 134 to 137) does, seen from \<open>chat\<close>: it raises, or it
  returns a response with its message content (\<open>None\<close> when the message has none) and
  its usage (\<open>None\<close> when absent).
\<close>

datatype backend_outcome =
    Raises exn
  | Returns "string option" "api_usage option"

definition str :: "string \<Rightarrow> json" where
  "str s = JString (map of_char s)"

text \<open>\<open>getattr(usage, name, 0) or 0\<close>.\<close>

definition usage_field :: "api_usage option \<Rightarrow> (api_usage \<Rightarrow> int option) \<Rightarrow> int" where
  "usage_field u f =
     (case u of None \<Rightarrow> 0 | Some x \<Rightarrow> (case f x of None \<Rightarrow> 0 | Some n \<Rightarrow> n))"

definition usage_of :: "api_usage option \<Rightarrow> token_usage" where
  "usage_of u =
     \<lparr>prompt_tokens = usage_field u u_prompt_tokens,
      completion_tokens = usage_field u u_completion_tokens,
      total_tokens = usage_field u u_total_tokens\<rparr>"

definition zero_usage :: token_usage where
  "zero_usage = \<lparr>prompt_tokens = 0, completion_tokens = 0, total_tokens = 0\<rparr>"

text \<open>\<open>parsed.get\<close> with the empty string as default, on the dictionary built from the pairs of an object: the
  last pair with the key wins.\<close>

definition dict_get :: "(nat list \<times> json) list \<Rightarrow> string \<Rightarrow> json" where
  "dict_get pairs key =
     (case map_of (rev pairs) (map of_char key) of None \<Rightarrow> str [] | Some v \<Rightarrow> v)"

text \<open>The name of the Python type of a decoded value, for the message of the
  \<open>AttributeError\<close> that \<open>parsed.get\<close> raises on anything but a dictionary.\<close>

fun type_name :: "json \<Rightarrow> string" where
  "type_name JNull = ''NoneType''"
| "type_name (JBool b) = ''bool''"
| "type_name (JNumber l) =
     (if (\<forall>c \<in> set l. is_digit c \<or> c = CHR ''-'') then ''int'' else ''float'')"
| "type_name (JString cs) = ''str''"
| "type_name (JArray vs) = ''list''"
| "type_name (JObject ps) = ''dict''"

definition ok_result :: "client \<Rightarrow> int \<Rightarrow> token_usage \<Rightarrow> json \<Rightarrow> json \<Rightarrow> chat_result" where
  "ok_result cl lat tu answer sql =
     \<lparr>natural_language_answer = answer, sql_query = sql, token_usage = tu,
      latency_ms = lat, provider = cl_provider cl, model = cl_model cl,
      status = Ok, error_message = None\<rparr>"

definition error_result ::
    "client \<Rightarrow> int \<Rightarrow> token_usage \<Rightarrow> json \<Rightarrow> string \<Rightarrow> chat_result" where
  "error_result cl lat tu answer msg =
     \<lparr>natural_language_answer = answer, sql_query = str [], token_usage = tu,
      latency_ms = lat, provider = cl_provider cl, model = cl_model cl,
      status = Error, error_message = Some msg\<rparr>"

text \<open>Lines 148 to 161: the reply trimmed, without its fence, sanitized.\<close>

definition prepare_content :: "string \<Rightarrow> string" where
  "prepare_content reply = clean_json_string (strip_fence (strip reply))"

text \<open>
  The body of the \<open>try\<close> block.  On an exception it returns, with the exception, the
  local variables that the first handler reads: \<open>content\<close> and \<open>token_usage\<close>, each
  \<open>None\<close> when not yet assigned.  The exhaustion of the decoder's budget stands for a
  \<open>RecursionError\<close>.
\<close>

definition chat_try ::
    "client \<Rightarrow> int \<Rightarrow> backend_outcome
       \<Rightarrow> (exn \<times> string option \<times> token_usage option) + chat_result" where
  "chat_try cl lat outcome =
     (case outcome of
        Raises e \<Rightarrow> Inl (e, None, None)
      | Returns None u \<Rightarrow>
          Inl (OtherError ''NoneType object has no attribute strip'', None, Some (usage_of u))
      | Returns (Some reply) u \<Rightarrow>
          (let tu = usage_of u;
               content = prepare_content reply
           in case json_loads content of
                Inl (Decode msg) \<Rightarrow> Inl (JSONDecodeError msg, Some content, Some tu)
              | Inl Fuel \<Rightarrow>
                  Inl (OtherError ''maximum recursion depth exceeded'', Some content, Some tu)
              | Inr (JObject pairs) \<Rightarrow>
                  Inr (ok_result cl lat tu (dict_get pairs ''answer'')
                         (dict_get pairs ''sql_query''))
              | Inr v \<Rightarrow>
                  Inl (OtherError (type_name v @ '' object has no attribute get''),
                       Some content, Some tu)))"

text \<open>
  \<open>chat\<close> with its two handlers.  \<open>lat\<close> is the latency that the clock gives.  The
  result is \<open>Inl\<close> when an exception leaves \<open>chat\<close>.
\<close>

definition chat :: "client \<Rightarrow> int \<Rightarrow> backend_outcome \<Rightarrow> exn + chat_result" where
  "chat cl lat outcome =
     (case chat_try cl lat outcome of
        Inr r \<Rightarrow> Inr r
      | Inl (JSONDecodeError msg, content, tu) \<Rightarrow>
          (let raw_content = (case content of None \<Rightarrow> [] | Some c \<Rightarrow> c);
               tu' = (case tu of None \<Rightarrow> zero_usage | Some t \<Rightarrow> t)
           in case (if raw_content \<noteq> [] then extract_field ''answer'' raw_content else Inr []) of
                Inl e \<Rightarrow> Inl e
              | Inr answer \<Rightarrow>
                  (case (if raw_content \<noteq> [] then extract_field ''sql_query'' raw_content
                         else Inr []) of
                     Inl e \<Rightarrow> Inl e
                   | Inr sql \<Rightarrow>
                       if answer \<noteq> [] then Inr (ok_result cl lat tu' (str answer) (str sql))
                       else Inr (error_result cl lat tu'
                                   (str (if raw_content \<noteq> [] then raw_content
                                         else ''Failed to parse response''))
                                   (''JSON parse error: '' @ msg))))
      | Inl (OtherError msg, content, tu) \<Rightarrow>
          Inr (error_result cl lat zero_usage (str []) msg))"

section \<open>The session store and \<open>RequestHandler._handle_chat\<close>\<close>

datatype role = User | Assistant

record turn =
  role :: role
  content :: string

record chat_request =
  session_id :: string
  message :: string

text \<open>What lines 209 to 214 make of the request body: a body that is not JSON, a body
  that \<open>ChatRequest\<close> rejects (or any other failure there, with its message), or a valid
  request.\<close>

datatype request_body =
    InvalidJson
  | InvalidRequest string
  | Valid chat_request

datatype http_body = ErrorBody string | ResultBody chat_result

text \<open>Two library calls are parameters of the model: \<open>json.dumps\<close> on the dictionary of
  the assistant turn, and the validation \<open>ChatResponse(**result)\<close>, which gives the
  message of its error or \<open>None\<close>.\<close>

record runtime =
  json_dumps :: "json \<Rightarrow> json \<Rightarrow> string"
  validation_error :: "chat_result \<Rightarrow> string option"

text \<open>The slice \<open>xs[-20:]\<close>.\<close>

definition last20 :: "'a list \<Rightarrow> 'a list" where
  "last20 xs = drop (length xs - 20) xs"

definition exn_str :: "exn \<Rightarrow> string" where
  "exn_str e = (case e of JSONDecodeError m \<Rightarrow> m | OtherError m \<Rightarrow> m)"

text \<open>The turns that a successful exchange appends, in order.\<close>

definition new_turns :: "runtime \<Rightarrow> chat_request \<Rightarrow> chat_result \<Rightarrow> turn list" where
  "new_turns rt req result =
     [\<lparr>role = User, content = message req\<rparr>,
      \<lparr>role = Assistant,
       content = json_dumps rt (natural_language_answer result) (sql_query result)\<rparr>]"

text \<open>\<open>_handle_chat\<close>: the new session store, the status code and the body sent.\<close>

definition handle_chat ::
    "runtime \<Rightarrow> client \<Rightarrow> int \<Rightarrow> (string \<rightharpoonup> turn list) \<Rightarrow> request_body \<Rightarrow> backend_outcome
       \<Rightarrow> (string \<rightharpoonup> turn list) \<times> nat \<times> http_body" where
  "handle_chat rt cl lat sessions body outcome =
     (case body of
        InvalidJson \<Rightarrow> (sessions, 400, ErrorBody ''Invalid JSON'')
      | InvalidRequest msg \<Rightarrow> (sessions, 500, ErrorBody msg)
      | Valid req \<Rightarrow>
          (let sid = session_id req;
               sessions1 = (if sid \<notin> dom sessions then sessions(sid \<mapsto> []) else sessions);
               session_history = (case sessions1 sid of None \<Rightarrow> [] | Some h \<Rightarrow> h)
           in case chat cl lat outcome of
                Inl e \<Rightarrow> (sessions1, 500, ErrorBody (exn_str e))
              | Inr result \<Rightarrow>
                  (let sessions2 =
                         (if status result = Ok
                          then sessions1(sid \<mapsto> last20 (session_history @ new_turns rt req result))
                          else sessions1)
                   in case validation_error rt result of
                        Some msg \<Rightarrow> (sessions2, 500, ErrorBody msg)
                      | None \<Rightarrow> (sessions2, 200, ResultBody result))))"

section \<open>Notions for the statements about sanitation\<close>

text \<open>The scanner outside and inside a string literal, with no escape pending.\<close>

abbreviation outside :: "string \<Rightarrow> string" where
  "outside \<equiv> escape_scan False False"

abbreviation inside :: "string \<Rightarrow> string" where
  "inside \<equiv> escape_scan True False"

text \<open>Characters that the scanner copies: outside a string literal every character
  but the backslash and the double quote, inside one also not the newline and the tab.\<close>

definition plain :: "char \<Rightarrow> bool" where
  "plain c = (c \<noteq> BS \<and> c \<noteq> DQ)"

definition quiet :: "char \<Rightarrow> bool" where
  "quiet c = (c \<noteq> BS \<and> c \<noteq> DQ \<and> c \<noteq> NL \<and> c \<noteq> TAB)"



section \<open>The fallback patterns always set group 1\<close>

lemma rmatch_keeps_group:
  "(s', g') \<in> set (rmatch r s g) \<Longrightarrow> g \<noteq> None \<Longrightarrow> g' \<noteq> None"
proof (induction r s g arbitrary: s' g' rule: rmatch.induct)
  case (1 s g) then show ?case by simp
next
  case (2 p s g) then show ?case by (cases s) (auto split: if_splits)
next
  case (3 a b s g)
  from "3.prems"(1) obtain s1 g1 where a: "(s1, g1) \<in> set (rmatch a s g)"
    and b: "(s', g') \<in> set (rmatch b s1 g1)" by auto
  have g1: "g1 \<noteq> None" by (rule "3.IH"(1) [OF a "3.prems"(2)])
  show ?case by (rule "3.IH"(2) [OF a refl b g1])
next
  case (4 a s g)
  from "4.prems"(1) [unfolded rmatch.simps(4) [of a s g]] consider
      (more) s1 g1 where "(s1, g1) \<in> set (rmatch a s g)" "length s1 < length s"
        "(s', g') \<in> set (rmatch (Star a) s1 g1)"
    | (stop) "s' = s" "g' = g"
    by (auto split: if_splits)
  then show ?case
  proof cases
    case more
    have g1: "g1 \<noteq> None" by (rule "4.IH"(1) [OF more(1) "4.prems"(2)])
    show ?thesis by (rule "4.IH"(2) [OF more(1) refl more(2) more(3) g1])
  next
    case stop
    with "4.prems"(2) show ?thesis by simp
  qed
next
  case (5 a s g)
  from "5.prems"(1) show ?case by auto
qed

lemma rmatch_sets_group:
  "has_group r \<Longrightarrow> (s', g') \<in> set (rmatch r s g) \<Longrightarrow> g' \<noteq> None"
proof (induction r s g arbitrary: s' g' rule: rmatch.induct)
  case (3 a b s g)
  from "3.prems"(2) obtain s1 g1 where a: "(s1, g1) \<in> set (rmatch a s g)"
    and b: "(s', g') \<in> set (rmatch b s1 g1)" by auto
  show ?case
  proof (cases "has_group a")
    case True
    have "g1 \<noteq> None" by (rule "3.IH"(1) [OF True a])
    with b show ?thesis by (rule rmatch_keeps_group)
  next
    case False
    with "3.prems"(1) have "has_group b" by simp
    then show ?thesis by (rule "3.IH"(2) [OF a refl _ b])
  qed
next
  case (5 a s g)
  from "5.prems"(2) show ?case by auto
qed simp_all

lemma has_group_field_pattern: "has_group (field_pattern key)"
  by (simp add: field_pattern_def)

lemma re_search_group: "has_group r \<Longrightarrow> re_search r s \<noteq> Some None"
proof (induction s)
  case Nil
  then show ?case
    by (cases "rmatch r [] None") (auto dest: rmatch_sets_group [where r = r and s = "[]" and g = None])
next
  case (Cons c cs)
  then show ?case
    by (cases "rmatch r (c # cs) None")
       (auto dest: rmatch_sets_group [where r = r and s = "c # cs" and g = None])
qed

lemma extract_field_total: "\<exists>t. extract_field key s = Inr t"
  using re_search_group [OF has_group_field_pattern, of key s]
  by (auto simp: extract_field_def split: option.splits)

section \<open>\<open>chat\<close> returns a result\<close>

lemma chat_returns: "\<exists>r. chat cl lat outcome = Inr r"
  using extract_field_total [of "''answer''"] extract_field_total [of "''sql_query''"]
  by (auto simp: chat_def Let_def split: sum.splits prod.splits exn.splits option.splits)
     (metis Inl_Inr_False)+

section \<open>Session history\<close>

text \<open>
  C1.  When the session of the request is stored and the result of \<open>chat\<close> has status
  \<open>error\<close>, \<open>_handle_chat\<close> leaves the session store as it was: the turns stored for
  the session id (and for every other id) are the same before and after the call.
\<close>

theorem error_leaves_session_unchanged:
  assumes "sessions (session_id req) = Some h"
    and "chat cl lat outcome = Inr result"
    and "status result = Error"
  shows "fst (handle_chat rt cl lat sessions (Valid req) outcome) = sessions"
  using assms by (auto simp: handle_chat_def Let_def split: option.splits)

theorem error_leaves_session_unchanged_witness:
  "fst (handle_chat \<lparr>json_dumps = (\<lambda>a b. []), validation_error = (\<lambda>r. None)\<rparr>
          \<lparr>cl_provider = ollama, cl_model = ''llama3.2''\<rparr> 7
          [''s1'' \<mapsto> [\<lparr>role = User, content = ''hi''\<rparr>]]
          (Valid \<lparr>session_id = ''s1'', message = ''How many assets?''\<rparr>)
          (Raises (OtherError ''Connection error.'')))
     = [''s1'' \<mapsto> [\<lparr>role = User, content = ''hi''\<rparr>]]"
  by (rule error_leaves_session_unchanged
        [where result = "error_result \<lparr>cl_provider = ollama, cl_model = ''llama3.2''\<rparr> 7
                           zero_usage (str []) ''Connection error.''"])
     (simp_all add: chat_def chat_try_def error_result_def)

text \<open>
  C2.  After a successful exchange (status \<open>ok\<close>) the turns stored for the session
  are the most recent ones of the sequence before truncation (the stored history followed
  by the user turn and the assistant turn): at most 20, exactly 20 when that sequence
  is longer, in their order; what is dropped is a prefix, so the oldest turns go first.
\<close>

theorem window_keeps_most_recent_20:
  assumes "chat cl lat outcome = Inr result"
    and "status result = Ok"
    and "pre = (case sessions (session_id req) of None \<Rightarrow> [] | Some h \<Rightarrow> h)
                 @ new_turns rt req result"
  shows "\<exists>stored. fst (handle_chat rt cl lat sessions (Valid req) outcome) (session_id req)
                    = Some stored
           \<and> length stored = min 20 (length pre)
           \<and> take (length pre - 20) pre @ stored = pre"
proof -
  have "fst (handle_chat rt cl lat sessions (Valid req) outcome) (session_id req)
          = Some (last20 pre)"
    using assms by (auto simp: handle_chat_def Let_def split: option.splits)
  moreover have "length (last20 pre) = min 20 (length pre)"
    by (simp add: last20_def)
  moreover have "take (length pre - 20) pre @ last20 pre = pre"
    unfolding last20_def by (rule append_take_drop_id)
  ultimately show ?thesis by blast
qed

theorem window_keeps_most_recent_20_witness:
  "\<exists>stored.
     fst (handle_chat \<lparr>json_dumps = (\<lambda>a b. ''{}''), validation_error = (\<lambda>r. None)\<rparr>
            \<lparr>cl_provider = ollama, cl_model = ''llama3.2''\<rparr> 7
            [''s1'' \<mapsto> replicate 19 \<lparr>role = User, content = ''hi''\<rparr>]
            (Valid \<lparr>session_id = ''s1'', message = ''How many assets?''\<rparr>)
            (Returns (Some (''{'' @ [DQ] @ ''answer'' @ [DQ] @ '':'' @ [DQ] @ ''42'' @ [DQ] @ ''}''))
               None))
         ''s1'' = Some stored
     \<and> length stored = 20
     \<and> [\<lparr>role = User, content = ''hi''\<rparr>] @ stored
         = replicate 19 \<lparr>role = User, content = ''hi''\<rparr>
           @ [\<lparr>role = User, content = ''How many assets?''\<rparr>,
              \<lparr>role = Assistant, content = ''{}''\<rparr>]"
proof -
  have c: "chat \<lparr>cl_provider = ollama, cl_model = ''llama3.2''\<rparr> 7
             (Returns (Some (''{'' @ [DQ] @ ''answer'' @ [DQ] @ '':'' @ [DQ] @ ''42'' @ [DQ] @ ''}''))
                None)
           = Inr (ok_result \<lparr>cl_provider = ollama, cl_model = ''llama3.2''\<rparr> 7 zero_usage
                    (str ''42'') (str []))"
    by code_simp
  have s: "status (ok_result \<lparr>cl_provider = ollama, cl_model = ''llama3.2''\<rparr> 7 zero_usage
                    (str ''42'') (str [])) = Ok"
    by (simp add: ok_result_def)
  show ?thesis
    using window_keeps_most_recent_20 [OF c s refl,
      where sessions = "[''s1'' \<mapsto> replicate 19 \<lparr>role = User, content = ''hi''\<rparr>]"
        and req = "\<lparr>session_id = ''s1'', message = ''How many assets?''\<rparr>"
        and rt = "\<lparr>json_dumps = (\<lambda>a b. ''{}''), validation_error = (\<lambda>r. None)\<rparr>"]
    by (simp add: new_turns_def ok_result_def)
qed

section \<open>The shape of the results of \<open>chat\<close>\<close>

text \<open>
  C10.  In every result of \<open>chat\<close> the status is \<open>ok\<close> exactly when there is no
  \<open>error_message\<close>.
\<close>

theorem status_ok_iff_no_error_message:
  "chat cl lat outcome = Inr r \<Longrightarrow> (status r = Ok) = (error_message r = None)"
  by (auto simp: chat_def chat_try_def Let_def ok_result_def error_result_def
           split: sum.splits prod.splits exn.splits option.splits backend_outcome.splits
                  decode_error.splits json.splits if_splits)

theorem status_ok_iff_no_error_message_witness:
  "(status (ok_result \<lparr>cl_provider = ollama, cl_model = ''llama3.2''\<rparr> 7 zero_usage
              (str ''42'') (str [])) = Ok)
   = (error_message (ok_result \<lparr>cl_provider = ollama, cl_model = ''llama3.2''\<rparr> 7 zero_usage
              (str ''42'') (str [])) = None)
   \<and> (status (error_result \<lparr>cl_provider = ollama, cl_model = ''llama3.2''\<rparr> 7 zero_usage
              (str []) ''Connection error.'') = Ok)
   = (error_message (error_result \<lparr>cl_provider = ollama, cl_model = ''llama3.2''\<rparr> 7 zero_usage
              (str []) ''Connection error.'') = None)"
proof -
  have c: "chat \<lparr>cl_provider = ollama, cl_model = ''llama3.2''\<rparr> 7
             (Returns (Some (''{'' @ [DQ] @ ''answer'' @ [DQ] @ '':'' @ [DQ] @ ''42'' @ [DQ] @ ''}''))
                None)
           = Inr (ok_result \<lparr>cl_provider = ollama, cl_model = ''llama3.2''\<rparr> 7 zero_usage
                    (str ''42'') (str []))"
    by code_simp
  have d: "chat \<lparr>cl_provider = ollama, cl_model = ''llama3.2''\<rparr> 7
             (Raises (OtherError ''Connection error.''))
           = Inr (error_result \<lparr>cl_provider = ollama, cl_model = ''llama3.2''\<rparr> 7 zero_usage
                    (str []) ''Connection error.'')"
    by (simp add: chat_def chat_try_def)
  show ?thesis
    by (rule conjI) (rule status_ok_iff_no_error_message [OF c],
                     rule status_ok_iff_no_error_message [OF d])
qed

text \<open>
  C9, amended.  Whatever the backend call does, and whatever the reply holds, \<open>chat\<close>
  returns a result and no exception leaves it.  When the backend call raises, the result
  has status \<open>error\<close>, an empty \<open>sql_query\<close>, a token usage of zero and the failure
  in \<open>error_message\<close>; its answer is empty, except that a \<open>JSONDecodeError\<close> raised by
  the call goes to the first handler, whose answer is the text
  \<open>Failed to parse response\<close>.
\<close>

theorem chat_never_raises:
  "(\<exists>r. chat cl lat outcome = Inr r)
   \<and> chat cl lat (Raises (OtherError m))
       = Inr (error_result cl lat zero_usage (str []) m)
   \<and> chat cl lat (Raises (JSONDecodeError m'))
       = Inr (error_result cl lat zero_usage (str ''Failed to parse response'')
                (''JSON parse error: '' @ m'))"
  using chat_returns [of cl lat outcome] by (simp add: chat_def chat_try_def)

theorem chat_never_raises_witness:
  "(\<exists>r. chat \<lparr>cl_provider = ollama, cl_model = ''llama3.2''\<rparr> 7
           (Returns (Some ''not json at all'') None) = Inr r)
   \<and> chat \<lparr>cl_provider = ollama, cl_model = ''llama3.2''\<rparr> 7
         (Raises (OtherError ''Connection error.''))
       = Inr (error_result \<lparr>cl_provider = ollama, cl_model = ''llama3.2''\<rparr> 7 zero_usage
                (str []) ''Connection error.'')
   \<and> chat \<lparr>cl_provider = ollama, cl_model = ''llama3.2''\<rparr> 7
         (Raises (JSONDecodeError ''Expecting value''))
       = Inr (error_result \<lparr>cl_provider = ollama, cl_model = ''llama3.2''\<rparr> 7 zero_usage
                (str ''Failed to parse response'') (''JSON parse error: '' @ ''Expecting value''))"
  by (rule chat_never_raises)

text \<open>
  C9 as stated fails: the backend call raises a \<open>JSONDecodeError\<close> (the handler tests
  for that case with \<open>'content' in locals()\<close>), and the answer of the result is not
  empty.
\<close>

theorem transport_failure_answer_counterexample:
  "chat \<lparr>cl_provider = ollama, cl_model = ''llama3.2''\<rparr> 7
     (Raises (JSONDecodeError ''Expecting value''))
   = Inr (error_result \<lparr>cl_provider = ollama, cl_model = ''llama3.2''\<rparr> 7 zero_usage
            (str ''Failed to parse response'') ''JSON parse error: Expecting value'')
   \<and> natural_language_answer
         (error_result \<lparr>cl_provider = ollama, cl_model = ''llama3.2''\<rparr> 7 zero_usage
            (str ''Failed to parse response'') ''JSON parse error: Expecting value'')
       \<noteq> str []"
  by (simp add: chat_def chat_try_def error_result_def str_def)

section \<open>Fenced replies\<close>

lemma split_nl_not_Nil [simp]: "split_nl s \<noteq> []"
  by (induction s) (auto split: list.splits)

lemma split_nl_no_newline: "NL \<notin> set x \<Longrightarrow> split_nl x = [x]"
  by (induction x) auto

lemma split_nl_append: "split_nl (a @ NL # b) = split_nl a @ split_nl b"
proof (induction a)
  case Nil
  show ?case by simp
next
  case (Cons c a)
  show ?case
  proof (cases "c = NL")
    case True
    with Cons show ?thesis by simp
  next
    case False
    obtain l ls where l: "split_nl a = l # ls"
      using split_nl_not_Nil [of a] by (cases "split_nl a") auto
    with False Cons show ?thesis by simp
  qed
qed

lemma join_nl_Cons: "ls \<noteq> [] \<Longrightarrow> join_nl (l # ls) = l @ NL # join_nl ls"
  by (cases ls) auto

lemma join_split_nl: "join_nl (split_nl s) = s"
proof (induction s)
  case Nil
  show ?case by simp
next
  case (Cons c s)
  obtain l ls where l: "split_nl s = l # ls"
    using split_nl_not_Nil [of s] by (cases "split_nl s") auto
  show ?case
  proof (cases "c = NL")
    case True
    with Cons show ?thesis by (simp add: join_nl_Cons)
  next
    case False
    with Cons l show ?thesis by (cases ls) auto
  qed
qed

lemma isspace_BQ [simp]: "\<not> isspace BQ"
  by (simp add: isspace_def)

lemma strip_fenced: "strip (BQ # x @ [BQ]) = BQ # x @ [BQ]"
  by (simp add: strip_def lstrip_def rstrip_def)

lemma strip_fence_self [simp]: "strip fence = fence"
  by (simp add: strip_def lstrip_def rstrip_def fence_def)

lemma startswith_append [simp]: "startswith (p @ x) p"
  by (induction p) auto

lemma startswith_self [simp]: "startswith p p"
  using startswith_append [of p "[]"] by simp

lemma wrapped_fence:
  assumes "NL \<notin> set tag"
  shows "strip_fence (strip (fence @ tag @ NL # r @ NL # fence)) = r"
proof -
  let ?w = "fence @ tag @ NL # r @ NL # fence"
  have w: "?w = BQ # ([BQ, BQ] @ tag @ [NL] @ r @ [NL] @ [BQ, BQ]) @ [BQ]"
    by (simp add: fence_def)
  have s: "strip ?w = ?w"
    by (subst (1 2) w) (rule strip_fenced)
  have "NL \<notin> set (fence @ tag)" "NL \<notin> set fence"
    using assms by (simp_all add: fence_def)
  then have l: "split_nl ?w = (fence @ tag) # split_nl r @ [fence]"
    using split_nl_append [of "fence @ tag" "r @ NL # fence"] split_nl_append [of r fence]
    by (simp add: split_nl_no_newline)
  have st: "startswith ?w fence"
    by (rule startswith_append)
  show ?thesis
    unfolding s strip_fence_def using st
    by (simp add: l Let_def join_split_nl)
qed

lemma unwrapped_fence:
  "strip r = r \<Longrightarrow> \<not> startswith r fence \<Longrightarrow> strip_fence (strip r) = r"
  by (simp add: strip_fence_def)

text \<open>
  C8, amended.  A body \<open>r\<close> without leading or trailing whitespace that does not
  itself begin with a fence, wrapped in a fence (three backquotes and a language tag on
  the first line, three backquotes on the last line), gives the same result of \<open>chat\<close>
  as \<open>r\<close> alone: fence stripping removes the first and the last line, and the rest of
  the pipeline sees \<open>r\<close>.
\<close>

theorem fenced_reply_normalizes_alike:
  assumes "NL \<notin> set tag" and "strip r = r" and "\<not> startswith r fence"
  shows "chat cl lat (Returns (Some (fence @ tag @ [NL] @ r @ [NL] @ fence)) u)
         = chat cl lat (Returns (Some r) u)"
proof -
  have "prepare_content (fence @ tag @ [NL] @ r @ [NL] @ fence) = prepare_content r"
    using wrapped_fence [OF assms(1), of r] unwrapped_fence [OF assms(2,3)]
    by (simp add: prepare_content_def)
  then show ?thesis
    by (simp add: chat_def chat_try_def)
qed

theorem fenced_reply_normalizes_alike_witness:
  "chat \<lparr>cl_provider = ollama, cl_model = ''llama3.2''\<rparr> 7
     (Returns (Some (fence @ ''json'' @ [NL]
                      @ (''{'' @ [DQ] @ ''answer'' @ [DQ] @ '':'' @ [DQ] @ ''42'' @ [DQ] @ ''}'')
                      @ [NL] @ fence)) None)
   = chat \<lparr>cl_provider = ollama, cl_model = ''llama3.2''\<rparr> 7
       (Returns (Some (''{'' @ [DQ] @ ''answer'' @ [DQ] @ '':'' @ [DQ] @ ''42'' @ [DQ] @ ''}'')) None)"
  by (rule fenced_reply_normalizes_alike)
     (simp_all add: strip_def lstrip_def rstrip_def isspace_def fence_def)

text \<open>
  C8 as stated fails: the body is trimmed when it is the whole reply and not when it is
  inside a fence.  The body is a space and \<open>x\<close>; it is rejected by the decoder both
  times, and the text surfaced as answer differs.
\<close>

theorem fenced_reply_counterexample:
  "chat \<lparr>cl_provider = ollama, cl_model = ''llama3.2''\<rparr> 7
     (Returns (Some (fence @ ''json'' @ [NL] @ '' x'' @ [NL] @ fence)) None)
   = Inr (error_result \<lparr>cl_provider = ollama, cl_model = ''llama3.2''\<rparr> 7 zero_usage
            (str '' x'') ''JSON parse error: Expecting value'')
   \<and> chat \<lparr>cl_provider = ollama, cl_model = ''llama3.2''\<rparr> 7 (Returns (Some '' x'') None)
   = Inr (error_result \<lparr>cl_provider = ollama, cl_model = ''llama3.2''\<rparr> 7 zero_usage
            (str ''x'') ''JSON parse error: Expecting value'')
   \<and> str '' x'' \<noteq> str ''x''"
  by code_simp

section \<open>Replies that the decoder rejects\<close>

lemma extract_field_Nil [simp]: "extract_field key [] = Inr []"
  by (simp add: extract_field_def field_pattern_def)








section \<open>The decoder after sanitation\<close>

text \<open>
  What the decoder accepts with raw newlines and tabs in strings, \<open>json.loads\<close> accepts
  after the scanner has run over it, with the same value: the scanner copies everything
  outside string literals, and inside them turns a raw newline or tab into its escape.
\<close>

lemma scan_outside_Cons:
  "escape_scan False False (c # cs) = c # escape_scan (c = DQ) (c = BS) cs"
  by simp

lemma scan_outside_plain:
  "plain c \<Longrightarrow> escape_scan False False (c # cs) = c # escape_scan False False cs"
  by (simp add: plain_def)

declare escape_scan.simps(2) [simp del]
declare scan_outside_plain [simp]

















lemma inside_quiet [simp]: "quiet c \<Longrightarrow> inside (c # cs) = c # inside cs"
  by (simp add: quiet_def escape_scan.simps)

lemma inside_DQ [simp]: "inside (DQ # cs) = DQ # outside cs"
  by (simp add: escape_scan.simps)

lemma inside_BS [simp]: "inside (BS # e # cs) = BS # e # inside cs"
  by (simp add: escape_scan.simps)

lemma inside_BS_end [simp]: "inside [BS] = [BS]"
  by (simp add: escape_scan.simps)

lemma inside_NL [simp]: "inside (NL # cs) = BS # CHR ''n'' # inside cs"
  by (simp add: escape_scan.simps)

lemma inside_TAB [simp]: "inside (TAB # cs) = BS # CHR ''t'' # inside cs"
  by (simp add: escape_scan.simps)











lemma outside_DQ [simp]: "outside (DQ # cs) = DQ # inside cs"
  by (simp add: scan_outside_Cons)


























end
